theory Spec2Isabelle
  imports Main "HOL-Library.Char_ord" "HOL-Library.List_Lexorder"
begin

section \<open>Texts and the interpreter's character tables\<close>

text \<open>
  The program of \<^verbatim>\<open>procesar_remisiones.py\<close> works on Python \<^verbatim>\<open>str\<close> values. A text is
  modelled as a \<^typ>\<open>string\<close>, one \<^typ>\<open>char\<close> per code point, so the model covers the
  code points 0 to 255 (ASCII and the Latin-1 letters of Spanish invoices, which is also
  all that the accented entries of \<^verbatim>\<open>LINEA_NO_ITEM_PREFIXES\<close> need). On that range the
  tables below are the ones of CPython: \<^verbatim>\<open>str.isspace\<close> (used alike by \<^verbatim>\<open>str.strip\<close> and by
  the regular expression class \<^verbatim>\<open>\s\<close>), the class \<^verbatim>\<open>\d\<close>, \<^verbatim>\<open>str.upper\<close> and \<^verbatim>\<open>str.lower\<close>.
  Two code points have an upper-case form beyond 255 (U+00B5 and U+00FF); the model leaves
  them unchanged.
\<close>

definition code :: "char \<Rightarrow> nat" where
  "code c = of_char c"

definition isspace :: "char \<Rightarrow> bool" where
  "isspace c = (let n = code c in
     (9 \<le> n \<and> n \<le> 13) \<or> (28 \<le> n \<and> n \<le> 32) \<or> n = 133 \<or> n = 160)"

definition isdigit :: "char \<Rightarrow> bool" where
  "isdigit c = (let n = code c in 48 \<le> n \<and> n \<le> 57)"

definition upper_char :: "char \<Rightarrow> string" where
  "upper_char c = (let n = code c in
     if 97 \<le> n \<and> n \<le> 122 then [char_of (n - 32)]
     else if n = 223 then ''SS''
     else if 224 \<le> n \<and> n \<le> 254 \<and> n \<noteq> 247 then [char_of (n - 32)]
     else [c])"

definition lower_char :: "char \<Rightarrow> char" where
  "lower_char c = (let n = code c in
     if 65 \<le> n \<and> n \<le> 90 then char_of (n + 32)
     else if 192 \<le> n \<and> n \<le> 222 \<and> n \<noteq> 215 then char_of (n + 32)
     else c)"

text \<open>\<^verbatim>\<open>s.upper()\<close>, \<^verbatim>\<open>s.lower()\<close>, \<^verbatim>\<open>s.strip()\<close>, \<^verbatim>\<open>s.startswith(p)\<close>, \<^verbatim>\<open>s.endswith(p)\<close>.\<close>

definition upper :: "string \<Rightarrow> string" where
  "upper s = concat (map upper_char s)"

definition lower :: "string \<Rightarrow> string" where
  "lower s = map lower_char s"

definition lstrip :: "string \<Rightarrow> string" where
  "lstrip s = dropWhile isspace s"

definition rstrip :: "string \<Rightarrow> string" where
  "rstrip s = rev (dropWhile isspace (rev s))"

definition strip :: "string \<Rightarrow> string" where
  "strip s = rstrip (lstrip s)"

fun startswith :: "string \<Rightarrow> string \<Rightarrow> bool" where
  "startswith s [] = True"
| "startswith [] (p # ps) = False"
| "startswith (c # cs) (p # ps) = (c = p \<and> startswith cs ps)"

definition endswith :: "string \<Rightarrow> string \<Rightarrow> bool" where
  "endswith s p = startswith (rev s) (rev p)"

text \<open>
  \<^verbatim>\<open>int(texto)\<close> on a text of decimal digits, the only texts that \<^verbatim>\<open>parse_entero\<close> passes
  to it: the digits are read left to right, and Python's integers are unbounded, so the
  value is an \<^typ>\<open>int\<close>. The interpreter refuses to convert a text of more digits than
  \<^verbatim>\<open>sys.get_int_max_str_digits()\<close>, 4300 unless the interpreter is configured otherwise, and
  raises \<^verbatim>\<open>ValueError\<close>; leading zeros count.
\<close>

definition digit_value :: "char \<Rightarrow> int" where
  "digit_value c = int (code c) - 48"

definition int_of_digits :: "string \<Rightarrow> int" where
  "int_of_digits ds = foldl (\<lambda>acc c. 10 * acc + digit_value c) 0 ds"

definition int_max_str_digits :: nat where
  "int_max_str_digits = 4300"

datatype excepcion = ValueError

definition py_int :: "string \<Rightarrow> excepcion + int" where
  "py_int texto =
     (if int_max_str_digits < length texto then Inl ValueError
      else Inr (int_of_digits texto))"

section \<open>\<^verbatim>\<open>parse_entero\<close>\<close>

text \<open>
  \<^verbatim>\<open>texto_limpio = re.sub(r"[^\d]", "", valor_texto)\<close> deletes every character that is not
  a decimal digit; an empty rest gives \<^verbatim>\<open>None\<close>, and so does a conversion that raises
  \<^verbatim>\<open>ValueError\<close>.
\<close>

definition parse_entero :: "string \<Rightarrow> int option" where
  "parse_entero valor_texto =
     (let texto_limpio = filter isdigit valor_texto
      in if texto_limpio = [] then None
         else (case py_int texto_limpio of
                 Inr n \<Rightarrow> Some n
               | Inl ValueError \<Rightarrow> None))"

section \<open>\<^verbatim>\<open>normalizar_texto_producto\<close>\<close>

text \<open>
  \<^verbatim>\<open>re.sub(r"\s+", " ", t)\<close> replaces every maximal run of whitespace by one space.
\<close>

function sub_espacios :: "string \<Rightarrow> string" where
  "sub_espacios [] = []"
| "sub_espacios (c # cs) =
     (if isspace c then CHR '' '' # sub_espacios (dropWhile isspace cs)
      else c # sub_espacios cs)"
  by pat_completeness auto
termination
  by (relation "measure length") (auto simp: length_dropWhile_le less_Suc_eq_le)

definition normalizar_texto_producto :: "string \<Rightarrow> string" where
  "normalizar_texto_producto nombre =
     (let mayusculas = strip (upper nombre)
      in sub_espacios mayusculas)"

section \<open>\<^verbatim>\<open>LINEA_ITEM_REGEX\<close>\<close>

text \<open>
  The pattern is matched by backtracking. Each piece of the pattern is modelled by the
  list of ways it can match at the start of a text, in the order in which the matcher
  tries them; a way is the matched text and the rest. \<^verbatim>\<open>X*\<close> and \<^verbatim>\<open>X+\<close> try the longest
  run first, \<^verbatim>\<open>X+?\<close> the shortest first, \<^verbatim>\<open>c?\<close> tries to take the character first.
  The whole pattern is the sequence of its pieces, and \<^verbatim>\<open>match\<close> returns the first way
  that reaches the end, which is the match the backtracking search finds.
\<close>

fun greedy_star :: "(char \<Rightarrow> bool) \<Rightarrow> string \<Rightarrow> (string \<times> string) list" where
  "greedy_star P [] = [([], [])]"
| "greedy_star P (c # cs) =
     (if P c then map (\<lambda>(m, r). (c # m, r)) (greedy_star P cs) @ [([], c # cs)]
      else [([], c # cs)])"

definition greedy_plus :: "(char \<Rightarrow> bool) \<Rightarrow> string \<Rightarrow> (string \<times> string) list" where
  "greedy_plus P s = filter (\<lambda>(m, r). m \<noteq> []) (greedy_star P s)"

definition lazy_plus :: "(char \<Rightarrow> bool) \<Rightarrow> string \<Rightarrow> (string \<times> string) list" where
  "lazy_plus P s = rev (greedy_plus P s)"

fun optional :: "char \<Rightarrow> string \<Rightarrow> string list" where
  "optional x [] = [[]]"
| "optional x (c # cs) = (if c = x then [cs, c # cs] else [c # cs])"

text \<open>
  \<^verbatim>\<open>.\<close> is any character but the newline (no \<^verbatim>\<open>DOTALL\<close>); \<^verbatim>\<open>[\d\.,]\<close> is a digit, a dot or a
  comma; \<^verbatim>\<open>\S\<close> is the complement of \<^verbatim>\<open>\s\<close>; \<^verbatim>\<open>$\<close> (no \<^verbatim>\<open>MULTILINE\<close>) holds at the end of the
  text and before a newline that ends the text. \<^verbatim>\<open>re.IGNORECASE\<close> changes nothing, the
  pattern has no letter.
\<close>

definition punto :: "char \<Rightarrow> bool" where
  "punto c = (c \<noteq> CHR 0x0A)"

definition numerico :: "char \<Rightarrow> bool" where
  "numerico c = (isdigit c \<or> c = CHR ''.'' \<or> c = CHR '','')"

definition no_espacio :: "char \<Rightarrow> bool" where
  "no_espacio c = (\<not> isspace c)"

definition fin_de_texto :: "string \<Rightarrow> bool" where
  "fin_de_texto s = (s = [] \<or> s = [CHR 0x0A])"

record coincidencia =
  prod :: string
  p_unit :: string
  cant :: string
  total :: string

definition LINEA_ITEM_REGEX_matches :: "string \<Rightarrow> coincidencia list" where
  "LINEA_ITEM_REGEX_matches linea =
     [\<lparr>prod = g_prod, p_unit = g_p_unit, cant = g_cant, total = g_total\<rparr>.
        (_, r1) \<leftarrow> greedy_star isspace linea,
        (g_prod, r2) \<leftarrow> lazy_plus punto r1,
        (_, r3) \<leftarrow> greedy_plus isspace r2,
        r4 \<leftarrow> optional (CHR ''$'') r3,
        (g_p_unit, r5) \<leftarrow> greedy_plus numerico r4,
        (_, r6) \<leftarrow> greedy_plus isspace r5,
        (g_cant, r7) \<leftarrow> greedy_plus isdigit r6,
        (_, r8) \<leftarrow> greedy_plus isspace r7,
        (_, r9) \<leftarrow> greedy_plus no_espacio r8,
        (_, r10) \<leftarrow> greedy_plus isspace r9,
        r11 \<leftarrow> optional (CHR ''$'') r10,
        (g_total, r12) \<leftarrow> greedy_plus numerico r11,
        (_, r13) \<leftarrow> greedy_star isspace r12,
        fin_de_texto r13]"

definition LINEA_ITEM_REGEX_match :: "string \<Rightarrow> coincidencia option" where
  "LINEA_ITEM_REGEX_match linea =
     (case LINEA_ITEM_REGEX_matches linea of [] \<Rightarrow> None | m # _ \<Rightarrow> Some m)"

section \<open>The constant tables\<close>

text \<open>\<^verbatim>\<open>COSTOS\<close>, the fixed table of unit costs; the keys of the dictionary are distinct.\<close>

definition COSTOS :: "string \<rightharpoonup> int" where
  "COSTOS = map_of [
     (''PRIV BAR'', 13500),
     (''SPACEMAN'', 10500),
     (''VELOCITY'', 11000),
     (''CHRIS BROWN 15000'', 11000),
     (''SOLARIS'', 14500),
     (''DEATH ROW'', 5000),
     (''DEATH ROW 5K'', 4800),
     (''SNOOPYSMOKE'', 9000),
     (''BUGATTI'', 5000),
     (''MTRX25K'', 11600),
     (''MTRX12K'', 9300),
     (''MOVEMENT'', 8300),
     (''LOST MARY'', 5000),
     (''ORION BAR'', 8300),
     (''IJOY'', 14000),
     (''AIRFUZE'', 13700),
     (''JUDO'', 13500),
     (''VERA'', 10300),
     (''CZAR'', 8500),
     (''MINTOPIA'', 8500),
     (''SNOOPY30K'', 15000),
     (''SPACEMAN 20K'', 12500),
     (''CONNECT'', 16000),
     (''HELLO SYNIX'', 18100),
     (''CAPSULA THC'', 8800),
     (''EQUATOR'', 15000),
     (''URANUS'', 10500),
     (''BATERIA THC'', 7500),
     (''LENTES'', 7500),
     (''ELF THC'', 24000),
     (''MOTI'', 8500),
     (''HUKMANIA'', 8000),
     (''YOVO'', 8000),
     (''PULSE'', 45000),
     (''AIRPODS'', 28000),
     (''CRAZYACE'', 0),
     (''ELFBARTE'', 5500),
     (''AIRBAR'', 7500),
     (''EASE'', 5000),
     (''LIGHT RISE'', 0),
     (''SMARTH TC'', 13000),
     (''NOS KYLINBAR'', 12500),
     (''NICKYJAM'', 9000),
     (''FUMEDESTILADO'', 21500)]"

text \<open>
  \<^verbatim>\<open>LINEA_NO_ITEM_PREFIXES\<close>; the accented capitals are written by their code points
  (U+00D1, U+00D3, U+00C9, U+00CD).
\<close>

definition LINEA_NO_ITEM_PREFIXES :: "string list" where
  "LINEA_NO_ITEM_PREFIXES = [
     ''SE'' @ [CHR 0xD1] @ ''OR'',
     ''SENOR'',
     ''DIRECCI'' @ [CHR 0xD3] @ ''N'',
     ''DIRECCION'',
     ''CIUDAD'',
     ''TEL'' @ [CHR 0xC9] @ ''FONO'',
     ''TELEFONO'',
     ''FECHA'',
     ''REMISI'' @ [CHR 0xD3] @ ''N'',
     ''REMISION'',
     [CHR 0xCD] @ ''TEM'',
     ''ITEM'',
     ''ELABORADO'',
     ''SUBTOTAL'',
     ''TOTAL'',
     ''NIT'',
     ''NO.'']"

section \<open>\<^verbatim>\<open>es_linea_item\<close>\<close>

definition es_linea_item :: "string \<Rightarrow> bool" where
  "es_linea_item linea =
     (if CHR ''$'' \<notin> set linea then False
      else let contenido = upper (strip linea)
           in if list_ex (\<lambda>prefijo. startswith contenido prefijo) LINEA_NO_ITEM_PREFIXES
              then False
              else LINEA_ITEM_REGEX_match linea \<noteq> None)"

section \<open>\<^verbatim>\<open>extraer_items_desde_pdf\<close>\<close>

record item =
  Producto :: string
  Precio_Venta_Unitario :: int
  Cantidad :: int
  Total_Venta_Item :: int

text \<open>
  The body of the loop over the lines either leaves the line by one of its three
  \<^verbatim>\<open>continue\<close> statements or appends an item. The result names the branch taken, in the
  order of the source.
\<close>

datatype rama =
    Continue_no_es_item
  | Continue_sin_coincidencia
  | Continue_numero_invalido
  | Append item

definition procesar_linea :: "string \<Rightarrow> rama" where
  "procesar_linea linea =
     (if \<not> es_linea_item linea then Continue_no_es_item
      else case LINEA_ITEM_REGEX_match linea of
          None \<Rightarrow> Continue_sin_coincidencia
        | Some coincidencia \<Rightarrow>
            let producto = strip (prod coincidencia);
                precio_unitario = parse_entero (p_unit coincidencia);
                cantidad = parse_entero (cant coincidencia);
                total_venta = parse_entero (total coincidencia)
            in (case (precio_unitario, cantidad, total_venta) of
                  (Some p, Some c, Some t) \<Rightarrow>
                    Append \<lparr>item.Producto = producto, item.Precio_Venta_Unitario = p,
                            item.Cantidad = c, item.Total_Venta_Item = t\<rparr>
                | _ \<Rightarrow> Continue_numero_invalido))"

fun lineas_loop :: "string list \<Rightarrow> item list \<Rightarrow> item list" where
  "lineas_loop [] items = items"
| "lineas_loop (linea # resto) items =
     (case procesar_linea linea of
        Append it \<Rightarrow> lineas_loop resto (items @ [it])
      | _ \<Rightarrow> lineas_loop resto items)"

text \<open>\<^verbatim>\<open>texto.split("\n")\<close>: the pieces between the newlines, at least one piece.\<close>

fun split_lineas :: "string \<Rightarrow> string list" where
  "split_lineas [] = [[]]"
| "split_lineas (c # cs) =
     (if c = CHR 0x0A then [] # split_lineas cs
      else (case split_lineas cs of
              [] \<Rightarrow> [[c]]
            | l # ls \<Rightarrow> (c # l) # ls))"

text \<open>
  What \<^verbatim>\<open>pdfplumber\<close> does with a path is the environment of the program. Opening either
  raises (with the text of the exception) or gives the pages; \<^verbatim>\<open>extract_text()\<close> on a page
  either raises or returns a text or \<^verbatim>\<open>None\<close>. The pages are read one after the other
  inside the \<^verbatim>\<open>try\<close> block, so an exception leaves the loops with the items appended so far.
\<close>

datatype pagina = Extract_text "string option" | Extract_text_raises string

datatype pdf = Open_raises string | Pages "pagina list"

fun paginas_loop :: "pagina list \<Rightarrow> item list \<Rightarrow> item list \<times> string option" where
  "paginas_loop [] items = (items, None)"
| "paginas_loop (Extract_text_raises exc # resto) items = (items, Some exc)"
| "paginas_loop (Extract_text t # resto) items =
     (let texto = (case t of None \<Rightarrow> [] | Some x \<Rightarrow> x)
      in paginas_loop resto (lineas_loop (split_lineas texto) items))"

text \<open>The lines printed on the console, one constructor for each \<^verbatim>\<open>print\<close> of the source.\<close>

datatype mensaje =
    Procesando_remision string
  | No_se_pudo_procesar string string
  | No_se_encontraron_items string
  | Totales_remision int int
  | No_se_procesaron_remisiones
  | Archivo_generado string
  | Productos_sin_costo "string list"

definition extraer_items_desde_pdf :: "(string \<Rightarrow> pdf) \<Rightarrow> string \<Rightarrow> item list \<times> mensaje list" where
  "extraer_items_desde_pdf abrir ruta_pdf =
     (case abrir ruta_pdf of
        Open_raises exc \<Rightarrow> ([], [No_se_pudo_procesar ruta_pdf exc])
      | Pages paginas \<Rightarrow>
          (case paginas_loop paginas [] of
             (items, None) \<Rightarrow> (items, [])
           | (items, Some exc) \<Rightarrow> (items, [No_se_pudo_procesar ruta_pdf exc])))"

section \<open>\<^verbatim>\<open>procesar_remisiones\<close>\<close>

text \<open>
  The dictionaries that the program collects for the sheets \<^verbatim>\<open>Detalle_Items\<close> and
  \<^verbatim>\<open>Resumen\<close>, with their keys. A value that is \<^verbatim>\<open>None\<close> in the source is \<^const>\<open>None\<close>
  here; the numbers are Python integers.
\<close>

record detalle =
  Remision :: string
  Producto :: string
  Cantidad :: int
  Precio_Venta_Unitario :: int
  Total_Venta_Item :: int
  Costo_Unitario :: "int option"
  Ganancia_Unidad :: "int option"
  Ganancia_Item :: "int option"

record resumen =
  Remision :: string
  Total_Ventas_COP :: int
  Total_Ganancias_COP :: int
  Detalle_de_Items :: string

text \<open>
  The variables of the run that the loops update: the three collections declared before
  the loop over the files and the console. The variables of one document
  (\<^verbatim>\<open>total_ventas_remision\<close>, \<^verbatim>\<open>total_ganancias_remision\<close>, \<^verbatim>\<open>productos_en_remision\<close>) are
  the state of the loop over its items.
\<close>

record estado =
  resumen_remisiones :: "resumen list"
  detalle_items :: "detalle list"
  productos_desconocidos :: "string set"
  consola :: "mensaje list"

record remision =
  total_ventas_remision :: int
  total_ganancias_remision :: int
  productos_en_remision :: "string set"

definition procesar_item :: "string \<Rightarrow> item \<Rightarrow> remision \<times> estado \<Rightarrow> remision \<times> estado" where
  "procesar_item nombre_remision it = (\<lambda>(rem, est).
     let producto_original = item.Producto it;
         producto_normalizado = normalizar_texto_producto producto_original;
         costo_unitario = COSTOS producto_normalizado;
         precio_venta_unitario = item.Precio_Venta_Unitario it;
         cantidad = item.Cantidad it;
         total_venta_item = item.Total_Venta_Item it;
         ganancia_unidad = (case costo_unitario of
             Some costo \<Rightarrow> Some (precio_venta_unitario - costo) | None \<Rightarrow> None);
         ganancia_item = (case ganancia_unidad of
             Some g \<Rightarrow> Some (g * cantidad) | None \<Rightarrow> None);
         rem1 = (case ganancia_item of
             Some g \<Rightarrow> rem\<lparr>total_ganancias_remision := total_ganancias_remision rem + g\<rparr>
           | None \<Rightarrow> rem);
         est1 = (case costo_unitario of
             Some costo \<Rightarrow> est
           | None \<Rightarrow> est\<lparr>productos_desconocidos :=
                        insert producto_normalizado (productos_desconocidos est)\<rparr>);
         rem2 = rem1\<lparr>total_ventas_remision := total_ventas_remision rem1 + total_venta_item,
                     productos_en_remision :=
                       insert producto_normalizado (productos_en_remision rem1)\<rparr>;
         est2 = est1\<lparr>detalle_items := detalle_items est1 @
                  [\<lparr>detalle.Remision = nombre_remision,
                    detalle.Producto = producto_original,
                    detalle.Cantidad = cantidad,
                    detalle.Precio_Venta_Unitario = precio_venta_unitario,
                    detalle.Total_Venta_Item = total_venta_item,
                    detalle.Costo_Unitario = costo_unitario,
                    detalle.Ganancia_Unidad = ganancia_unidad,
                    detalle.Ganancia_Item = ganancia_item\<rparr>]\<rparr>
     in (rem2, est2))"

fun items_loop :: "string \<Rightarrow> item list \<Rightarrow> remision \<times> estado \<Rightarrow> remision \<times> estado" where
  "items_loop nombre_remision [] re = re"
| "items_loop nombre_remision (it # resto) re =
     items_loop nombre_remision resto (procesar_item nombre_remision it re)"

text \<open>
  \<^verbatim>\<open>sep.join(xs)\<close>; \<^verbatim>\<open>os.path.join(a, b)\<close> and the root of \<^verbatim>\<open>os.path.splitext(p)\<close> as on POSIX,
  for a file name \<^verbatim>\<open>b\<close> or \<^verbatim>\<open>p\<close> without a slash, as \<^verbatim>\<open>os.listdir\<close> gives them (the dots that
  begin a name are not an extension); \<^verbatim>\<open>str(n)\<close> for a length.
\<close>

fun join :: "string \<Rightarrow> string list \<Rightarrow> string" where
  "join sep [] = []"
| "join sep [x] = x"
| "join sep (x # y # ys) = x @ sep @ join sep (y # ys)"

definition path_join :: "string \<Rightarrow> string \<Rightarrow> string" where
  "path_join a b = (if a = [] \<or> endswith a ''/'' then a @ b else a @ ''/'' @ b)"

definition splitext_root :: "string \<Rightarrow> string" where
  "splitext_root p =
     (if CHR ''.'' \<in> set p
      then let raiz = rev (tl (dropWhile (\<lambda>c. c \<noteq> CHR ''.'') (rev p)))
           in if list_ex (\<lambda>c. c \<noteq> CHR ''.'') raiz then raiz else p
      else p)"

function str_nat :: "nat \<Rightarrow> string" where
  "str_nat n = (if n < 10 then [char_of (48 + n)]
                else str_nat (n div 10) @ [char_of (48 + n mod 10)])"
  by pat_completeness auto
termination
  by (relation "measure id") auto

declare str_nat.simps [simp del]

text \<open>The body of the loop over the sorted file names of the data folder.\<close>

definition procesar_archivo :: "(string \<Rightarrow> pdf) \<Rightarrow> string \<Rightarrow> string \<Rightarrow> estado \<Rightarrow> estado" where
  "procesar_archivo abrir carpeta_data nombre_archivo est =
     (if \<not> endswith (lower nombre_archivo) ''.pdf'' then est
      else
        let ruta_pdf = path_join carpeta_data nombre_archivo;
            nombre_remision = splitext_root nombre_archivo;
            est1 = est\<lparr>consola := consola est @ [Procesando_remision nombre_remision]\<rparr>;
            (items_pdf, impresos) = extraer_items_desde_pdf abrir ruta_pdf;
            est2 = est1\<lparr>consola := consola est1 @ impresos\<rparr>
        in if items_pdf = []
           then est2\<lparr>consola := consola est2 @ [No_se_encontraron_items nombre_archivo]\<rparr>
           else
             let (rem, est3) = items_loop nombre_remision items_pdf
                   (\<lparr>total_ventas_remision = 0, total_ganancias_remision = 0,
                     productos_en_remision = {}\<rparr>, est2);
                 detalle_productos = join '' + '' (sorted_list_of_set (productos_en_remision rem));
                 est4 = est3\<lparr>resumen_remisiones := resumen_remisiones est3 @
                          [\<lparr>resumen.Remision = nombre_remision,
                            resumen.Total_Ventas_COP = total_ventas_remision rem,
                            resumen.Total_Ganancias_COP = total_ganancias_remision rem,
                            resumen.Detalle_de_Items = detalle_productos\<rparr>]\<rparr>
             in est4\<lparr>consola := consola est4 @
                      [Totales_remision (total_ventas_remision rem)
                         (total_ganancias_remision rem)]\<rparr>)"

fun archivos_loop :: "(string \<Rightarrow> pdf) \<Rightarrow> string \<Rightarrow> string list \<Rightarrow> estado \<Rightarrow> estado" where
  "archivos_loop abrir carpeta_data [] est = est"
| "archivos_loop abrir carpeta_data (nombre_archivo # resto) est =
     archivos_loop abrir carpeta_data resto (procesar_archivo abrir carpeta_data nombre_archivo est)"

text \<open>
  The program hands its tables to \<^verbatim>\<open>pandas\<close>. A frame is recorded by the call that builds
  it and the values passed to that call: \<^verbatim>\<open>pd.DataFrame\<close> on the list of summary
  dictionaries, on the list of detail dictionaries, on the sorted unknown products, and
  \<^verbatim>\<open>pd.concat\<close> of two frames. How the library stores the cells of a frame (a column that
  holds a \<^verbatim>\<open>None\<close> becomes a column of floating-point numbers, for instance) and what the
  writer does with a frame are not part of the model, and the calls that build a frame are
  taken to return (the library may refuse numbers too large for a floating-point number).
\<close>

datatype frame =
    DataFrame_resumen "resumen list"
  | DataFrame_detalle "detalle list"
  | DataFrame_pendientes "string list"
  | Concat frame frame

text \<open>
  The program reads a frame back in two ways: its length, the number of dictionaries it
  was built from, and the sum of a column of integers, \<^verbatim>\<open>int(df[columna].sum())\<close>. The
  library stores such a column as signed 64-bit integers when every value fits; as
  unsigned 64-bit integers when some value is above the signed range, none is negative
  and all fit in 64 bits; and as Python objects otherwise. The sum is taken in the
  arithmetic of the column: it wraps around modulo \<open>2^64\<close> in the two 64-bit types and is
  exact on Python objects.
\<close>

definition INT64_MIN :: int where
  "INT64_MIN = - (2 ^ 63)"

definition INT64_MAX :: int where
  "INT64_MAX = 2 ^ 63 - 1"

definition UINT64_MAX :: int where
  "UINT64_MAX = 2 ^ 64 - 1"

datatype dtype = Dtype_int64 | Dtype_uint64 | Dtype_object

definition dtype_columna :: "int list \<Rightarrow> dtype" where
  "dtype_columna valores =
     (if list_ex (\<lambda>v. UINT64_MAX < v \<or> v < INT64_MIN) valores \<or>
         (list_ex (\<lambda>v. INT64_MAX < v) valores \<and> list_ex (\<lambda>v. v < 0) valores)
      then Dtype_object
      else if list_ex (\<lambda>v. INT64_MAX < v) valores then Dtype_uint64
      else Dtype_int64)"

definition wrap_int64 :: "int \<Rightarrow> int" where
  "wrap_int64 n = (n + 2 ^ 63) mod 2 ^ 64 - 2 ^ 63"

definition wrap_uint64 :: "int \<Rightarrow> int" where
  "wrap_uint64 n = n mod 2 ^ 64"

definition sum_columna :: "int list \<Rightarrow> int" where
  "sum_columna valores =
     (case dtype_columna valores of
        Dtype_int64 \<Rightarrow> wrap_int64 (sum_list valores)
      | Dtype_uint64 \<Rightarrow> wrap_uint64 (sum_list valores)
      | Dtype_object \<Rightarrow> sum_list valores)"

text \<open>
  The result of a run: what was printed, the output folder that \<^verbatim>\<open>os.makedirs\<close> ensures,
  and, when the run reaches the writer, the path of the workbook and the frames passed to
  \<^verbatim>\<open>to_excel\<close> with their sheet names, in the order of \<^verbatim>\<open>hojas_excel\<close>. The data folder
  exists and is given by its listing (\<^verbatim>\<open>os.listdir\<close>) and by what opening each path does.
\<close>

record salida =
  impreso :: "mensaje list"
  carpeta_asegurada :: string
  excel :: "(string \<times> (string \<times> frame) list) option"

definition estado_inicial :: estado where
  "estado_inicial = \<lparr>resumen_remisiones = [], detalle_items = [],
                      productos_desconocidos = {}, consola = []\<rparr>"

definition procesar_remisiones ::
  "(string \<Rightarrow> string list) \<Rightarrow> (string \<Rightarrow> pdf) \<Rightarrow> string \<Rightarrow> string \<Rightarrow> string \<Rightarrow> salida" where
  "procesar_remisiones listdir abrir carpeta_data carpeta_output nombre_archivo_excel =
     (let est = archivos_loop abrir carpeta_data (sort (listdir carpeta_data)) estado_inicial
      in if resumen_remisiones est = []
         then \<lparr>impreso = consola est @ [No_se_procesaron_remisiones],
               carpeta_asegurada = carpeta_output, excel = None\<rparr>
         else
           let df_resumen = DataFrame_resumen (resumen_remisiones est);
               len_df_resumen = length (resumen_remisiones est);
               total_ventas_global =
                 sum_columna (map resumen.Total_Ventas_COP (resumen_remisiones est));
               total_ganancias_global =
                 sum_columna (map resumen.Total_Ganancias_COP (resumen_remisiones est));
               fila_total =
                 \<lparr>resumen.Remision = ''TOTAL ('' @ str_nat len_df_resumen @ '' remisiones)'',
                  resumen.Total_Ventas_COP = total_ventas_global,
                  resumen.Total_Ganancias_COP = total_ganancias_global,
                  resumen.Detalle_de_Items = str_nat len_df_resumen @ '' remisiones''\<rparr>;
               df_resumen_total = Concat df_resumen (DataFrame_resumen [fila_total]);
               df_detalle = DataFrame_detalle (detalle_items est);
               pendientes = sorted_list_of_set (productos_desconocidos est);
               hojas_excel =
                 [(''Resumen'', df_resumen_total),
                  (''Detalle_Items'', df_detalle)] @
                 (if productos_desconocidos est \<noteq> {}
                  then [(''Pendientes'', DataFrame_pendientes pendientes)] else []);
               ruta_excel = path_join carpeta_output nombre_archivo_excel
           in \<lparr>impreso = consola est @ [Archivo_generado ruta_excel] @
                  (if productos_desconocidos est \<noteq> {}
                   then [Productos_sin_costo pendientes] else []),
                carpeta_asegurada = carpeta_output,
                excel = Some (ruta_excel, hojas_excel)\<rparr>)"

section \<open>Decimal notation\<close>

text \<open>
  The number that a text of decimal digits denotes, by the place of each digit; the
  reference against which \<^const>\<open>int_of_digits\<close> is compared.
\<close>

definition decimal_value :: "string \<Rightarrow> nat" where
  "decimal_value ds = (\<Sum>i<length ds. nat (digit_value (ds ! i)) * 10 ^ (length ds - Suc i))"

section \<open>Notions used to state the properties\<close>

text \<open>
  The text of a page as the loop reads it (\<^verbatim>\<open>extract_text() or ""\<close>) and the items that the
  lines of one page give.
\<close>

definition texto_de_pagina :: "string option \<Rightarrow> string" where
  "texto_de_pagina t = (case t of None \<Rightarrow> [] | Some x \<Rightarrow> x)"

definition items_de_pagina :: "string option \<Rightarrow> item list" where
  "items_de_pagina t = lineas_loop (split_lineas (texto_de_pagina t)) []"

text \<open>
  The unit cost that the table gives for an item, under its normalised name, and the
  profit of an item with a known cost, \<^verbatim>\<open>(precio_venta_unitario - costo_unitario) * cantidad\<close>.
\<close>

definition costo_de :: "item \<Rightarrow> int option" where
  "costo_de it = COSTOS (normalizar_texto_producto (item.Producto it))"

definition ganancia_de :: "item \<Rightarrow> int" where
  "ganancia_de it = (item.Precio_Venta_Unitario it - the (costo_de it)) * item.Cantidad it"

text \<open>A file of the data folder that is read as a document and gives at least one item.\<close>

definition produce_items :: "(string \<Rightarrow> pdf) \<Rightarrow> string \<Rightarrow> string \<Rightarrow> bool" where
  "produce_items abrir carpeta_data nombre_archivo =
     (endswith (lower nombre_archivo) ''.pdf'' \<and>
      fst (extraer_items_desde_pdf abrir (path_join carpeta_data nombre_archivo)) \<noteq> [])"

section \<open>Example documents\<close>

text \<open>
  A document whose second page cannot be read; a data folder with two documents of two
  item lines each (one product of the table, one unknown product), a file that is not a
  PDF and a file that cannot be opened; and a folder without any item.
\<close>

definition abrir_falla_lectura :: "string \<Rightarrow> pdf" where
  "abrir_falla_lectura ruta =
     Pages [Extract_text (Some ''A $1 2 x $3''), Extract_text_raises ''error de lectura'']"

definition texto_ejemplo :: string where
  "texto_ejemplo = ''PRIV BAR $18.000 2 0% $36.000'' @ [CHR 0x0A] @ ''FOO $5.000 1 0% $5.000''"


definition abrir_ejemplo :: "string \<Rightarrow> pdf" where
  "abrir_ejemplo ruta =
     (if ruta = ''data/a.pdf'' \<or> ruta = ''data/b.pdf''
      then Pages [Extract_text (Some texto_ejemplo)]
      else Open_raises ''no es un PDF'')"

definition listdir_vacio :: "string \<Rightarrow> string list" where
  "listdir_vacio carpeta = [''notas.txt'', ''c.pdf'']"



section \<open>Properties of \<^verbatim>\<open>parse_entero\<close>\<close>

lemma isdigit_iff: "isdigit c \<longleftrightarrow> c \<in> set ''0123456789''"
proof -
  have "isdigit c \<longleftrightarrow> of_char c \<in> {48..57::nat}"
    by (auto simp: isdigit_def code_def Let_def)
  also have "{48..57::nat} = {48, 49, 50, 51, 52, 53, 54, 55, 56, 57}"
    by (rule set_eqI) (simp, arith)
  also have "of_char c \<in> {48, 49, 50, 51, 52, 53, 54, 55, 56, 57::nat} \<longleftrightarrow> c \<in> set ''0123456789''"
    by (cases c) (auto)
  finally show ?thesis .
qed

lemma decimal_value_snoc:
  "decimal_value (ds @ [d]) = 10 * decimal_value ds + nat (digit_value d)"
proof -
  have "(\<Sum>i<length ds. nat (digit_value ((ds @ [d]) ! i)) * 10 ^ (length (ds @ [d]) - Suc i))
      = (\<Sum>i<length ds. 10 * (nat (digit_value (ds ! i)) * 10 ^ (length ds - Suc i)))"
  proof (rule sum.cong)
    fix i assume "i \<in> {..<length ds}"
    then have i: "i < length ds" by simp
    then have "length (ds @ [d]) - Suc i = Suc (length ds - Suc i)" by simp
    with i show "nat (digit_value ((ds @ [d]) ! i)) * 10 ^ (length (ds @ [d]) - Suc i)
        = 10 * (nat (digit_value (ds ! i)) * 10 ^ (length ds - Suc i))"
      by (simp add: nth_append)
  qed simp
  then show ?thesis
    by (simp add: decimal_value_def sum_distrib_left)
qed

lemma int_of_digits_snoc: "int_of_digits (ds @ [d]) = 10 * int_of_digits ds + digit_value d"
  by (simp add: int_of_digits_def)

lemma digit_value_nonneg: "isdigit c \<Longrightarrow> 0 \<le> digit_value c"
  by (simp add: isdigit_def digit_value_def code_def Let_def)

lemma int_of_digits_decimal:
  "\<forall>c\<in>set ds. isdigit c \<Longrightarrow> int_of_digits ds = int (decimal_value ds)"
proof (induction ds rule: rev_induct)
  case Nil
  show ?case by (simp add: int_of_digits_def decimal_value_def)
next
  case (snoc d ds)
  then show ?case
    by (simp add: int_of_digits_snoc decimal_value_snoc digit_value_nonneg)
qed

text \<open>
  C4, as stated, fails: a text of 4301 zeros keeps all its digits, and
  \<^const>\<open>parse_entero\<close> returns \<^const>\<open>None\<close> for it, because the conversion raises
  \<^verbatim>\<open>ValueError\<close>.
\<close>

theorem parse_entero_limit_counterexample:
  "filter (\<lambda>c. c \<in> set ''0123456789'') (replicate 4301 (CHR ''0'')) =
     replicate 4301 (CHR ''0'') \<and>
   replicate 4301 (CHR ''0'') \<noteq> [] \<and>
   parse_entero (replicate 4301 (CHR ''0'')) = None"
proof -
  have d: "isdigit (CHR ''0'')"
    by (simp add: isdigit_iff)
  then have "filter isdigit (replicate 4301 (CHR ''0'')) = replicate 4301 (CHR ''0'')"
    by simp
  then have "parse_entero (replicate 4301 (CHR ''0'')) = None"
    by (simp add: parse_entero_def py_int_def int_max_str_digits_def)
  then show ?thesis by simp
qed

text \<open>
  C4, amended: for every text, \<^const>\<open>parse_entero\<close> removes every character that is not
  one of the ten decimal digits; it returns \<^const>\<open>None\<close> when no digit remains or when
  more than 4300 digits remain (the conversion fails), and otherwise the number that the
  remaining digits denote in decimal notation, a non-negative integer; the text
  \<^verbatim>\<open>$1.234,00\<close> gives 123400.
\<close>

theorem parse_entero_digits:
  "parse_entero s =
     (if filter (\<lambda>c. c \<in> set ''0123456789'') s = [] \<or>
         4300 < length (filter (\<lambda>c. c \<in> set ''0123456789'') s)
      then None
      else Some (int (decimal_value (filter (\<lambda>c. c \<in> set ''0123456789'') s))))
   \<and> parse_entero ''$1.234,00'' = Some 123400"
proof
  have eq: "filter (\<lambda>c. c \<in> set ''0123456789'') s = filter isdigit s"
    by (rule filter_cong) (simp_all add: isdigit_iff)
  have "int_of_digits (filter isdigit s) = int (decimal_value (filter isdigit s))"
    by (rule int_of_digits_decimal) simp
  then show "parse_entero s =
     (if filter (\<lambda>c. c \<in> set ''0123456789'') s = [] \<or>
         4300 < length (filter (\<lambda>c. c \<in> set ''0123456789'') s)
      then None
      else Some (int (decimal_value (filter (\<lambda>c. c \<in> set ''0123456789'') s))))"
    unfolding eq by (simp add: parse_entero_def py_int_def int_max_str_digits_def Let_def)
  show "parse_entero ''$1.234,00'' = Some 123400"
    by (simp add: parse_entero_def py_int_def int_max_str_digits_def isdigit_def code_def
          int_of_digits_def digit_value_def)
qed

theorem parse_entero_digits_witness:
  "parse_entero ''12 a'' = Some 12 \<and> parse_entero ''a, b'' = None \<and>
   parse_entero (replicate 4300 (CHR ''0'') @ ''7'') = None \<and>
   parse_entero (replicate 4299 (CHR ''0'') @ ''7'') = Some 7"
proof -
  have f1: "filter (\<lambda>c. c \<in> set ''0123456789'') ''12 a'' = ''12''" by simp
  have v1: "decimal_value ''12'' = 12"
    using decimal_value_snoc [of "''1''" "CHR ''2''"] decimal_value_snoc [of "[]" "CHR ''1''"]
    by (simp add: decimal_value_def digit_value_def code_def)
  have f2: "filter (\<lambda>c. c \<in> set ''0123456789'') ''a, b'' = []" by simp
  have f3: "filter (\<lambda>c. c \<in> set ''0123456789'') (replicate n (CHR ''0'') @ ''7'') =
              replicate n (CHR ''0'') @ ''7''" for n
    by simp
  have z: "decimal_value (replicate n (CHR ''0'')) = 0" for n
    by (simp add: decimal_value_def digit_value_def code_def)
  have v3: "decimal_value (replicate n (CHR ''0'') @ ''7'') = 7" for n
    using decimal_value_snoc [of "replicate n (CHR ''0'')" "CHR ''7''"]
    by (simp add: z digit_value_def code_def)
  from parse_entero_digits [of "''12 a''"] have "parse_entero ''12 a'' = Some 12"
    unfolding f1 v1 by simp
  moreover from parse_entero_digits [of "''a, b''"] have "parse_entero ''a, b'' = None"
    unfolding f2 by simp
  moreover from parse_entero_digits [of "replicate 4300 (CHR ''0'') @ ''7''"]
  have "parse_entero (replicate 4300 (CHR ''0'') @ ''7'') = None"
    unfolding f3 by simp
  moreover from parse_entero_digits [of "replicate 4299 (CHR ''0'') @ ''7''"]
  have "parse_entero (replicate 4299 (CHR ''0'') @ ''7'') = Some 7"
    unfolding f3 v3 by simp
  ultimately show ?thesis by blast
qed

section \<open>Properties of \<^verbatim>\<open>normalizar_texto_producto\<close>\<close>

lemma code_char_of: "n < 256 \<Longrightarrow> code (char_of n) = n"
  by (simp add: code_def)

lemma code_less: "code c < 256"
  by (simp add: code_def)

lemma upper_char_id:
  "\<not> (97 \<le> code d \<and> code d \<le> 122) \<Longrightarrow> code d \<noteq> 223 \<Longrightarrow>
   \<not> (224 \<le> code d \<and> code d \<le> 254 \<and> code d \<noteq> 247) \<Longrightarrow> upper_char d = [d]"
  unfolding upper_char_def Let_def by (simp only: if_False)

lemma upper_char_fixed: "d \<in> set (upper_char c) \<Longrightarrow> upper_char d = [d]"
proof -
  assume d: "d \<in> set (upper_char c)"
  have lt: "code c < 256" by (rule code_less)
  consider (az) "97 \<le> code c \<and> code c \<le> 122"
    | (ss) "code c = 223"
    | (lat) "224 \<le> code c \<and> code c \<le> 254 \<and> code c \<noteq> 247"
    | (other) "\<not> (97 \<le> code c \<and> code c \<le> 122) \<and> code c \<noteq> 223 \<and>
               \<not> (224 \<le> code c \<and> code c \<le> 254 \<and> code c \<noteq> 247)"
    by blast
  then show ?thesis
  proof cases
    case az
    with d have "d = char_of (code c - 32)" by (simp add: upper_char_def Let_def)
    moreover from az have "code c - 32 < 256" by arith
    ultimately have "code d = code c - 32" by (simp add: code_char_of)
    with az have "65 \<le> code d \<and> code d \<le> 90" by arith
    then show ?thesis by (intro upper_char_id) arith+
  next
    case ss
    with d have "d = CHR ''S''" by (simp add: upper_char_def Let_def)
    then have "code d = 83" by (simp add: code_def)
    then show ?thesis by (intro upper_char_id) arith+
  next
    case lat
    with d have "d = char_of (code c - 32)" by (simp add: upper_char_def Let_def)
    moreover from lat have "code c - 32 < 256" by arith
    ultimately have "code d = code c - 32" by (simp add: code_char_of)
    with lat have "192 \<le> code d \<and> code d \<le> 222" by arith
    then show ?thesis by (intro upper_char_id) arith+
  next
    case other
    then have "upper_char c = [c]" by (intro upper_char_id) blast+
    with d show ?thesis by simp
  qed
qed

lemma upper_fixed: "\<forall>c\<in>set t. upper_char c = [c] \<Longrightarrow> upper t = t"
  by (induction t) (simp_all add: upper_def)

lemma set_upper_fixed: "c \<in> set (upper s) \<Longrightarrow> upper_char c = [c]"
  by (auto simp: upper_def dest: upper_char_fixed)

lemma set_strip: "set (strip s) \<subseteq> set s"
proof -
  have "set (rstrip u) \<subseteq> set u" for u
    using set_dropWhileD[of _ isspace "rev u"] by (auto simp: rstrip_def)
  moreover have "set (lstrip s) \<subseteq> set s"
    by (auto simp: lstrip_def dest: set_dropWhileD)
  ultimately show ?thesis unfolding strip_def by blast
qed

lemma upper_char_space: "upper_char (CHR '' '') = '' ''"
  by (simp add: upper_char_def code_def)

lemma isspace_space: "isspace (CHR '' '')"
  by (simp add: isspace_def code_def)

lemma set_sub_espacios: "set (sub_espacios t) \<subseteq> insert (CHR '' '') (set t)"
proof (induction t rule: sub_espacios.induct)
  case 1
  show ?case by simp
next
  case (2 c cs)
  show ?case
  proof (cases "isspace c")
    case True
    with 2 have "set (sub_espacios (dropWhile isspace cs)) \<subseteq> insert (CHR '' '') (set (dropWhile isspace cs))"
      by simp
    moreover have "set (dropWhile isspace cs) \<subseteq> set cs"
      by (auto dest: set_dropWhileD)
    ultimately show ?thesis using True by auto
  next
    case False
    with 2 show ?thesis by auto
  qed
qed

lemma lstrip_id: "t = [] \<or> \<not> isspace (hd t) \<Longrightarrow> lstrip t = t"
  by (cases t) (auto simp: lstrip_def)

lemma rstrip_id: "t = [] \<or> \<not> isspace (last t) \<Longrightarrow> rstrip t = t"
  by (cases t rule: rev_cases) (auto simp: rstrip_def)

lemma lstrip_hd: "lstrip s = [] \<or> \<not> isspace (hd (lstrip s))"
  unfolding lstrip_def using hd_dropWhile[of isspace s] by blast

lemma rstrip_last: "rstrip s = [] \<or> \<not> isspace (last (rstrip s))"
proof (cases "dropWhile isspace (rev s) = []")
  case True
  then show ?thesis by (simp add: rstrip_def)
next
  case False
  then have "\<not> isspace (hd (dropWhile isspace (rev s)))" by (rule hd_dropWhile)
  with False show ?thesis by (simp add: rstrip_def last_rev)
qed

lemma rstrip_hd: "\<not> isspace (hd t) \<Longrightarrow> t \<noteq> [] \<Longrightarrow> rstrip t \<noteq> [] \<and> hd (rstrip t) = hd t"
proof -
  assume h: "\<not> isspace (hd t)" and ne: "t \<noteq> []"
  then obtain c cs where t: "t = c # cs" by (cases t) auto
  with h have c: "\<not> isspace c" by simp
  have "dropWhile isspace (rev cs @ [c]) = dropWhile isspace (rev cs) @ [c]"
    using c by (simp add: dropWhile_append3)
  then have "rstrip t = c # rev (dropWhile isspace (rev cs))"
    by (simp add: rstrip_def t)
  then show ?thesis by (simp add: t)
qed

lemma strip_trimmed:
  "strip s = [] \<or> (\<not> isspace (hd (strip s)) \<and> \<not> isspace (last (strip s)))"
proof (cases "lstrip s = []")
  case True
  then show ?thesis by (simp add: strip_def rstrip_def)
next
  case False
  with lstrip_hd[of s] have "\<not> isspace (hd (lstrip s))" by blast
  with False have "rstrip (lstrip s) \<noteq> [] \<and> hd (rstrip (lstrip s)) = hd (lstrip s)"
    using rstrip_hd by blast
  moreover note \<open>\<not> isspace (hd (lstrip s))\<close> rstrip_last[of "lstrip s"]
  ultimately show ?thesis by (auto simp: strip_def)
qed

lemma sub_espacios_hd:
  "t \<noteq> [] \<Longrightarrow> \<not> isspace (hd t) \<Longrightarrow> sub_espacios t \<noteq> [] \<and> hd (sub_espacios t) = hd t"
  by (cases t) auto

lemma sub_espacios_last:
  "t \<noteq> [] \<Longrightarrow> \<not> isspace (last t) \<Longrightarrow> sub_espacios t \<noteq> [] \<and> last (sub_espacios t) = last t"
proof (induction t rule: sub_espacios.induct)
  case 1
  then show ?case by simp
next
  case (2 c cs)
  show ?case
  proof (cases "isspace c")
    case True
    with 2 have cs: "cs \<noteq> []" by auto
    with 2 have lc: "\<not> isspace (last cs)" by simp
    have ex: "\<exists>x\<in>set cs. \<not> isspace x" using cs lc last_in_set by blast
    then have d: "dropWhile isspace cs \<noteq> []" by (simp add: dropWhile_eq_Nil_conv)
    have "\<exists>xs. cs = xs @ dropWhile isspace cs" by (metis takeWhile_dropWhile_id)
    with d have "last (dropWhile isspace cs) = last cs" by (metis last_appendR)
    with 2(1)[OF True d] lc True cs show ?thesis by simp
  next
    case False
    show ?thesis
    proof (cases "cs = []")
      case True
      with False show ?thesis by simp
    next
      case ne: False
      with 2 have "\<not> isspace (last cs)" by simp
      with 2(2)[OF False ne] False ne show ?thesis by simp
    qed
  qed
qed

lemma sub_espacios_idem: "sub_espacios (sub_espacios t) = sub_espacios t"
proof (induction t rule: sub_espacios.induct)
  case 1
  show ?case by simp
next
  case (2 c cs)
  show ?case
  proof (cases "isspace c")
    case True
    let ?y = "dropWhile isspace cs"
    have y: "?y = [] \<or> \<not> isspace (hd ?y)" using hd_dropWhile[of isspace cs] by blast
    have "dropWhile isspace (sub_espacios ?y) = sub_espacios ?y"
    proof (cases "?y = []")
      case True
      then have "sub_espacios ?y = []" by (simp only: sub_espacios.simps)
      then show ?thesis by (simp only: dropWhile.simps)
    next
      case False
      with y have "\<not> isspace (hd ?y)" by blast
      with False sub_espacios_hd[of ?y] have "sub_espacios ?y \<noteq> [] \<and> \<not> isspace (hd (sub_espacios ?y))"
        by simp
      then show ?thesis by (cases "sub_espacios ?y") auto
    qed
    then have "sub_espacios (CHR '' '' # sub_espacios ?y) = CHR '' '' # sub_espacios (sub_espacios ?y)"
      by (simp add: isspace_space)
    also have "\<dots> = CHR '' '' # sub_espacios ?y"
      using 2(1)[OF True] by simp
    finally show ?thesis using True by simp
  next
    case False
    with 2 show ?thesis by simp
  qed
qed

text \<open>
  C10: normalising a product name is idempotent: a normalised name is its own normal
  form, so the keys looked up in \<^const>\<open>COSTOS\<close>, the unknown products and the joined
  product names are all in normal form.
\<close>

theorem normalizar_texto_producto_idempotent:
  "normalizar_texto_producto (normalizar_texto_producto s) = normalizar_texto_producto s"
proof -
  define u where "u = strip (upper s)"
  define t where "t = sub_espacios u"
  have t: "normalizar_texto_producto s = t"
    by (simp add: normalizar_texto_producto_def u_def t_def)
  have "\<forall>c\<in>set t. upper_char c = [c]"
  proof
    fix c assume "c \<in> set t"
    then have "c = CHR '' '' \<or> c \<in> set u"
      using set_sub_espacios[of u] by (auto simp: t_def)
    moreover have "set u \<subseteq> set (upper s)" unfolding u_def by (rule set_strip)
    ultimately show "upper_char c = [c]"
      using set_upper_fixed upper_char_space by blast
  qed
  then have up: "upper t = t" by (rule upper_fixed)
  have trimmed: "t = [] \<or> (\<not> isspace (hd t) \<and> \<not> isspace (last t))"
  proof (cases "u = []")
    case True
    then show ?thesis by (simp add: t_def)
  next
    case False
    with strip_trimmed[of "upper s"] have "\<not> isspace (hd u)" "\<not> isspace (last u)"
      by (auto simp: u_def)
    with False sub_espacios_hd[of u] sub_espacios_last[of u] show ?thesis
      by (simp add: t_def)
  qed
  then have "lstrip t = t" by (intro lstrip_id) blast
  moreover from trimmed have "rstrip t = t" by (intro rstrip_id) blast
  ultimately have st: "strip t = t" by (simp add: strip_def)
  have "sub_espacios t = t" unfolding t_def by (rule sub_espacios_idem)
  with up st show ?thesis
    unfolding t by (simp add: normalizar_texto_producto_def)
qed

theorem normalizar_texto_producto_idempotent_witness:
  "normalizar_texto_producto ''  priv   bar '' = ''PRIV BAR'' \<and>
   normalizar_texto_producto ''PRIV BAR'' = ''PRIV BAR''"
proof -
  have a: "normalizar_texto_producto ''  priv   bar '' = ''PRIV BAR''"
    by code_simp
  with normalizar_texto_producto_idempotent [of "''  priv   bar ''"] show ?thesis
    by simp
qed

section \<open>Properties of the extraction\<close>

lemma startswith_take: "startswith s p \<longleftrightarrow> take (length p) s = p"
  by (induction s p rule: startswith.induct) auto

lemma lineas_loop_append:
  "lineas_loop (xs @ ys) items = lineas_loop ys (lineas_loop xs items)"
  by (induction xs arbitrary: items) (auto split: rama.splits)

lemma lineas_loop_acc: "lineas_loop ls items = items @ lineas_loop ls []"
proof (induction ls arbitrary: items)
  case Nil
  show ?case by simp
next
  case (Cons l ls)
  show ?case
  proof (cases "procesar_linea l")
    case (Append it)
    have "lineas_loop (l # ls) items = lineas_loop ls (items @ [it])"
      using Append by simp
    also have "\<dots> = (items @ [it]) @ lineas_loop ls []" by (rule Cons.IH)
    also have "\<dots> = items @ lineas_loop ls [it]" using Cons.IH[of "[it]"] by simp
    finally show ?thesis using Append by simp
  qed (use Cons.IH[of items] in simp_all)
qed

lemma paginas_loop_leidas:
  "paginas_loop (map Extract_text leidas @ resto) items =
   paginas_loop resto (items @ concat (map items_de_pagina leidas))"
proof (induction leidas arbitrary: items)
  case Nil
  show ?case by simp
next
  case (Cons t ts)
  have "lineas_loop (split_lineas (texto_de_pagina t)) items = items @ items_de_pagina t"
    unfolding items_de_pagina_def by (rule lineas_loop_acc)
  then show ?case
    using Cons.IH by (simp add: texto_de_pagina_def)
qed

lemma es_linea_item_A: "es_linea_item ''A $1 2 x $3''"
  by code_simp

lemma match_A: "LINEA_ITEM_REGEX_match ''A $1 2 x $3'' =
   Some \<lparr>prod = ''A'', p_unit = ''1'', cant = ''2'', total = ''3''\<rparr>"
  by code_simp

lemma procesar_linea_A: "procesar_linea ''A $1 2 x $3'' =
   Append \<lparr>item.Producto = ''A'', item.Precio_Venta_Unitario = 1, item.Cantidad = 2,
           item.Total_Venta_Item = 3\<rparr>"
  by code_simp

text \<open>
  C5: a line is accepted by \<^const>\<open>es_linea_item\<close> exactly when it contains the
  currency marker \<^verbatim>\<open>$\<close>, the line trimmed and upper-cased starts with none of the prefixes
  of \<^const>\<open>LINEA_NO_ITEM_PREFIXES\<close>, and the line matches the item pattern; a line that
  fails the marker test or the prefix test leaves the loop body at its first
  \<^verbatim>\<open>continue\<close> and adds no record, whatever else it contains.
\<close>

theorem es_linea_item_iff:
  "(es_linea_item linea \<longleftrightarrow>
      CHR ''$'' \<in> set linea \<and>
      (\<forall>prefijo\<in>set LINEA_NO_ITEM_PREFIXES.
         take (length prefijo) (upper (strip linea)) \<noteq> prefijo) \<and>
      LINEA_ITEM_REGEX_match linea \<noteq> None) \<and>
   (CHR ''$'' \<notin> set linea \<or>
    (\<exists>prefijo\<in>set LINEA_NO_ITEM_PREFIXES.
       take (length prefijo) (upper (strip linea)) = prefijo) \<longrightarrow>
      procesar_linea linea = Continue_no_es_item \<and>
      lineas_loop (linea # resto) items = lineas_loop resto items)"
proof -
  have iff: "es_linea_item linea \<longleftrightarrow>
      CHR ''$'' \<in> set linea \<and>
      (\<forall>prefijo\<in>set LINEA_NO_ITEM_PREFIXES.
         take (length prefijo) (upper (strip linea)) \<noteq> prefijo) \<and>
      LINEA_ITEM_REGEX_match linea \<noteq> None"
    unfolding es_linea_item_def Let_def list_ex_iff startswith_take by auto
  have "procesar_linea linea = Continue_no_es_item \<and>
      lineas_loop (linea # resto) items = lineas_loop resto items"
    if "\<not> es_linea_item linea"
    using that by (simp add: procesar_linea_def)
  with iff show ?thesis by blast
qed

theorem es_linea_item_iff_witness:
  "es_linea_item ''A $1 2 x $3'' \<and>
   LINEA_ITEM_REGEX_match ''TOTAL $1 2 x $3'' \<noteq> None \<and>
   procesar_linea ''TOTAL $1 2 x $3'' = Continue_no_es_item \<and>
   procesar_linea ''A 1 2 x 3'' = Continue_no_es_item"
proof -
  have a1: "CHR ''$'' \<in> set ''A $1 2 x $3''" by simp
  have a2: "\<forall>prefijo\<in>set LINEA_NO_ITEM_PREFIXES.
         take (length prefijo) (upper (strip ''A $1 2 x $3'')) \<noteq> prefijo"
    by code_simp
  have a3: "LINEA_ITEM_REGEX_match ''A $1 2 x $3'' \<noteq> None" by code_simp
  have b1: "LINEA_ITEM_REGEX_match ''TOTAL $1 2 x $3'' \<noteq> None" by code_simp
  have b2: "\<exists>prefijo\<in>set LINEA_NO_ITEM_PREFIXES.
         take (length prefijo) (upper (strip ''TOTAL $1 2 x $3'')) = prefijo"
    by code_simp
  have c1: "CHR ''$'' \<notin> set ''A 1 2 x 3''" by simp
  from a1 a2 a3 have "es_linea_item ''A $1 2 x $3''"
    using es_linea_item_iff [of "''A $1 2 x $3''"] by blast
  moreover from b2 have "procesar_linea ''TOTAL $1 2 x $3'' = Continue_no_es_item"
    using es_linea_item_iff [of "''TOTAL $1 2 x $3''"] by blast
  moreover from c1 have "procesar_linea ''A 1 2 x 3'' = Continue_no_es_item"
    using es_linea_item_iff [of "''A 1 2 x 3''"] by blast
  ultimately show ?thesis using b1 by blast
qed

text \<open>
  C9: on a line that \<^const>\<open>es_linea_item\<close> accepts, matching the item pattern again
  does not fail, so the loop body never leaves by the \<^verbatim>\<open>continue\<close> that follows the second
  match.
\<close>

theorem rematch_never_fails:
  "(es_linea_item linea \<longrightarrow> LINEA_ITEM_REGEX_match linea \<noteq> None) \<and>
   procesar_linea linea \<noteq> Continue_sin_coincidencia"
  by (auto simp: es_linea_item_def procesar_linea_def Let_def
           split: if_splits option.splits)

theorem rematch_never_fails_witness:
  "es_linea_item ''A $1 2 x $3'' \<and> LINEA_ITEM_REGEX_match ''A $1 2 x $3'' \<noteq> None \<and>
   procesar_linea ''A $1 2 x $3'' \<noteq> Continue_sin_coincidencia"
  using rematch_never_fails [of "''A $1 2 x $3''"] es_linea_item_A by blast

text \<open>
  C3: when a line passes the classifier and matches the pattern, and
  \<^const>\<open>parse_entero\<close> gives \<^const>\<open>None\<close> for the unit price, the quantity or the line
  total, the loop body leaves by its third \<^verbatim>\<open>continue\<close>: the items extracted are those of
  the same lines without that line, so no record, partial or with a zero, stands for it.
\<close>

theorem invalid_number_discards_line:
  "es_linea_item linea \<Longrightarrow> LINEA_ITEM_REGEX_match linea = Some m \<Longrightarrow>
   parse_entero (p_unit m) = None \<or> parse_entero (cant m) = None \<or>
   parse_entero (total m) = None \<Longrightarrow>
   procesar_linea linea = Continue_numero_invalido \<and>
   lineas_loop (antes @ linea # resto) items = lineas_loop (antes @ resto) items"
proof -
  assume a: "es_linea_item linea" and m: "LINEA_ITEM_REGEX_match linea = Some m"
    and n: "parse_entero (p_unit m) = None \<or> parse_entero (cant m) = None \<or>
            parse_entero (total m) = None"
  have p: "procesar_linea linea = Continue_numero_invalido"
    using a m n by (auto simp: procesar_linea_def Let_def split: option.splits)
  then have "lineas_loop (linea # resto) its = lineas_loop resto its" for its
    by simp
  then have "lineas_loop (antes @ linea # resto) items = lineas_loop (antes @ resto) items"
    by (simp add: lineas_loop_append)
  with p show ?thesis by simp
qed

theorem invalid_number_discards_line_witness:
  "es_linea_item ''FOO $... 2 x $100'' \<and>
   LINEA_ITEM_REGEX_match ''FOO $... 2 x $100'' =
     Some \<lparr>prod = ''FOO'', p_unit = ''...'', cant = ''2'', total = ''100''\<rparr> \<and>
   parse_entero ''...'' = None \<and>
   procesar_linea ''FOO $... 2 x $100'' = Continue_numero_invalido \<and>
   lineas_loop [''A $1 2 x $3'', ''FOO $... 2 x $100'', ''A $1 2 x $3''] [] =
   lineas_loop [''A $1 2 x $3'', ''A $1 2 x $3''] []"
proof -
  have a: "es_linea_item ''FOO $... 2 x $100''" by code_simp
  have m: "LINEA_ITEM_REGEX_match ''FOO $... 2 x $100'' =
     Some \<lparr>prod = ''FOO'', p_unit = ''...'', cant = ''2'', total = ''100''\<rparr>"
    by code_simp
  have n: "parse_entero ''...'' = None" by code_simp
  show ?thesis
    using invalid_number_discards_line [OF a m, of "[''A $1 2 x $3'']" "[''A $1 2 x $3'']" "[]"]
      a m n by simp
qed

text \<open>
  C2, as stated, fails: when the second page of a document cannot be read, the failure
  is reported and the item of the first page is returned, not an empty list.
\<close>

theorem extraer_items_falla_counterexample:
  "abrir_falla_lectura ''data/r.pdf'' =
     Pages [Extract_text (Some ''A $1 2 x $3''), Extract_text_raises ''error de lectura''] \<and>
   extraer_items_desde_pdf abrir_falla_lectura ''data/r.pdf'' =
     ([\<lparr>item.Producto = ''A'', item.Precio_Venta_Unitario = 1, item.Cantidad = 2,
        item.Total_Venta_Item = 3\<rparr>],
      [No_se_pudo_procesar ''data/r.pdf'' ''error de lectura'']) \<and>
   fst (extraer_items_desde_pdf abrir_falla_lectura ''data/r.pdf'') \<noteq> []"
proof -
  have "extraer_items_desde_pdf abrir_falla_lectura ''data/r.pdf'' =
     ([\<lparr>item.Producto = ''A'', item.Precio_Venta_Unitario = 1, item.Cantidad = 2,
        item.Total_Venta_Item = 3\<rparr>],
      [No_se_pudo_procesar ''data/r.pdf'' ''error de lectura''])"
    by code_simp
  then show ?thesis
    by (simp add: abrir_falla_lectura_def)
qed

text \<open>
  C2, amended: when opening the document fails, \<^const>\<open>extraer_items_desde_pdf\<close>
  reports the failure (path and message) and returns no item; when reading a page fails,
  it reports the failure and returns the items of the pages read before that page.
\<close>

theorem extraer_items_on_failure:
  "(abrir ruta_pdf = Open_raises exc \<longrightarrow>
      extraer_items_desde_pdf abrir ruta_pdf = ([], [No_se_pudo_procesar ruta_pdf exc])) \<and>
   (abrir ruta_pdf = Pages (map Extract_text leidas @ Extract_text_raises exc # resto) \<longrightarrow>
      extraer_items_desde_pdf abrir ruta_pdf =
        (concat (map items_de_pagina leidas), [No_se_pudo_procesar ruta_pdf exc]))"
  by (simp add: extraer_items_desde_pdf_def paginas_loop_leidas)

theorem extraer_items_on_failure_witness:
  "extraer_items_desde_pdf abrir_ejemplo ''data/c.pdf'' =
     ([], [No_se_pudo_procesar ''data/c.pdf'' ''no es un PDF'']) \<and>
   extraer_items_desde_pdf abrir_falla_lectura ''data/r.pdf'' =
     (items_de_pagina (Some ''A $1 2 x $3''),
      [No_se_pudo_procesar ''data/r.pdf'' ''error de lectura'']) \<and>
   items_de_pagina (Some ''A $1 2 x $3'') \<noteq> []"
proof -
  have a: "abrir_falla_lectura ''data/r.pdf'' =
     Pages (map Extract_text [Some ''A $1 2 x $3''] @
            Extract_text_raises ''error de lectura'' # [])"
    by (simp add: abrir_falla_lectura_def)
  have b: "items_de_pagina (Some ''A $1 2 x $3'') \<noteq> []" by code_simp
  have c: "abrir_ejemplo ''data/c.pdf'' = Open_raises ''no es un PDF''"
    by (simp add: abrir_ejemplo_def)
  from c have "extraer_items_desde_pdf abrir_ejemplo ''data/c.pdf'' =
     ([], [No_se_pudo_procesar ''data/c.pdf'' ''no es un PDF''])"
    using extraer_items_on_failure [of abrir_ejemplo "''data/c.pdf''" "''no es un PDF''"]
    by blast
  moreover from a have "extraer_items_desde_pdf abrir_falla_lectura ''data/r.pdf'' =
     (items_de_pagina (Some ''A $1 2 x $3''),
      [No_se_pudo_procesar ''data/r.pdf'' ''error de lectura''])"
    using extraer_items_on_failure [of abrir_falla_lectura "''data/r.pdf''"
        "''error de lectura''" "[Some ''A $1 2 x $3'']" "[]"]
    by simp
  ultimately show ?thesis using b by blast
qed

section \<open>Properties of the aggregation\<close>

lemma procesar_item_result:
  assumes "procesar_item n it (rem, est) = (rem', est')"
  shows "total_ventas_remision rem' = total_ventas_remision rem + item.Total_Venta_Item it"
    and "total_ganancias_remision rem' =
           total_ganancias_remision rem + (if costo_de it = None then 0 else ganancia_de it)"
    and "productos_desconocidos est' =
           (if costo_de it = None
            then insert (normalizar_texto_producto (item.Producto it)) (productos_desconocidos est)
            else productos_desconocidos est)"
    and "resumen_remisiones est' = resumen_remisiones est"
    and "consola est' = consola est"
    and "length (detalle_items est') = Suc (length (detalle_items est))"
  using assms
  by (auto simp: procesar_item_def Let_def costo_de_def ganancia_de_def split: option.splits)

lemma items_loop_result:
  assumes "items_loop n items (rem, est) = (rem', est')"
  shows "total_ventas_remision rem' =
           total_ventas_remision rem + sum_list (map item.Total_Venta_Item items)
       \<and> total_ganancias_remision rem' =
           total_ganancias_remision rem
           + sum_list (map ganancia_de (filter (\<lambda>it. costo_de it \<noteq> None) items))
       \<and> productos_desconocidos est' =
           productos_desconocidos est \<union>
           {normalizar_texto_producto (item.Producto it) | it. it \<in> set items \<and> costo_de it = None}
       \<and> resumen_remisiones est' = resumen_remisiones est
       \<and> consola est' = consola est
       \<and> length (detalle_items est') = length (detalle_items est) + length items"
  using assms
proof (induction items arbitrary: rem est)
  case Nil
  then show ?case by simp
next
  case (Cons it items)
  obtain rem1 est1 where step: "procesar_item n it (rem, est) = (rem1, est1)"
    by (cases "procesar_item n it (rem, est)")
  with Cons.prems have rest: "items_loop n items (rem1, est1) = (rem', est')" by simp
  note r = procesar_item_result[OF step]
  note ih = Cons.IH[OF rest]
  show ?case
  proof (cases "costo_de it = None")
    case True
    with r ih show ?thesis by auto
  next
    case False
    with r ih show ?thesis by auto
  qed
qed


lemma procesar_archivo_no_pdf:
  "\<not> endswith (lower n) ''.pdf'' \<Longrightarrow> procesar_archivo abrir c n est = est"
  by (simp add: procesar_archivo_def)

lemma procesar_archivo_sin_items:
  assumes "endswith (lower n) ''.pdf''"
    and "extraer_items_desde_pdf abrir (path_join c n) = ([], impresos)"
  shows "procesar_archivo abrir c n est =
     est\<lparr>consola := consola est @ [Procesando_remision (splitext_root n)] @ impresos @
                     [No_se_encontraron_items n]\<rparr>"
  using assms by (simp add: procesar_archivo_def Let_def)

lemma procesar_archivo_con_items:
  assumes "endswith (lower n) ''.pdf''"
    and "extraer_items_desde_pdf abrir (path_join c n) = (items, impresos)"
    and "items \<noteq> []"
    and "items_loop (splitext_root n) items
           (\<lparr>total_ventas_remision = 0, total_ganancias_remision = 0, productos_en_remision = {}\<rparr>,
            est\<lparr>consola := consola est @ [Procesando_remision (splitext_root n)] @ impresos\<rparr>)
         = (rem, est3)"
  shows "procesar_archivo abrir c n est =
     est3\<lparr>resumen_remisiones := resumen_remisiones est3 @
             [\<lparr>resumen.Remision = splitext_root n,
               resumen.Total_Ventas_COP = total_ventas_remision rem,
               resumen.Total_Ganancias_COP = total_ganancias_remision rem,
               resumen.Detalle_de_Items =
                 join '' + '' (sorted_list_of_set (productos_en_remision rem))\<rparr>],
           consola := consola est3 @
             [Totales_remision (total_ventas_remision rem) (total_ganancias_remision rem)]\<rparr>"
  using assms by (simp add: procesar_archivo_def Let_def)

text \<open>
  C1: for a document that gives at least one item, the summary row appended has as sales
  total the sum of the line totals of all its items and as profit total the sum of
  \<^verbatim>\<open>(unit price - unit cost) * quantity\<close> over exactly the items whose normalised product
  name is in \<^const>\<open>COSTOS\<close>; the normalised name of every other item is added to the
  unknown products. An item of unknown cost counts in the sales and not in the profit.
\<close>

theorem document_totals:
  assumes "endswith (lower nombre_archivo) ''.pdf''"
    and "extraer_items_desde_pdf abrir (path_join carpeta_data nombre_archivo) = (items, impresos)"
    and "items \<noteq> []"
  shows "\<exists>fila.
      resumen_remisiones (procesar_archivo abrir carpeta_data nombre_archivo est) =
        resumen_remisiones est @ [fila] \<and>
      resumen.Total_Ventas_COP fila = sum_list (map item.Total_Venta_Item items) \<and>
      resumen.Total_Ganancias_COP fila =
        sum_list (map ganancia_de (filter (\<lambda>it. costo_de it \<noteq> None) items)) \<and>
      productos_desconocidos (procesar_archivo abrir carpeta_data nombre_archivo est) =
        productos_desconocidos est \<union>
        {normalizar_texto_producto (item.Producto it) | it. it \<in> set items \<and> costo_de it = None}"
proof -
  let ?est2 = "est\<lparr>consola := consola est @
                 [Procesando_remision (splitext_root nombre_archivo)] @ impresos\<rparr>"
  let ?rem0 = "\<lparr>total_ventas_remision = 0, total_ganancias_remision = 0,
                productos_en_remision = {}\<rparr>"
  obtain rem est3 where
    loop: "items_loop (splitext_root nombre_archivo) items (?rem0, ?est2) = (rem, est3)"
    by (cases "items_loop (splitext_root nombre_archivo) items (?rem0, ?est2)")
  note r = items_loop_result[OF loop]
  note p = procesar_archivo_con_items[OF assms loop]
  show ?thesis
    unfolding p using r by simp
qed


theorem document_totals_witness:
  "map resumen.Total_Ventas_COP
     (resumen_remisiones (procesar_archivo abrir_ejemplo ''data'' ''a.pdf'' estado_inicial)) = [41000] \<and>
   map resumen.Total_Ganancias_COP
     (resumen_remisiones (procesar_archivo abrir_ejemplo ''data'' ''a.pdf'' estado_inicial)) = [9000] \<and>
   productos_desconocidos (procesar_archivo abrir_ejemplo ''data'' ''a.pdf'' estado_inicial) = {''FOO''}"
proof -
  let ?i1 = "\<lparr>item.Producto = ''PRIV BAR'', item.Precio_Venta_Unitario = 18000,
              item.Cantidad = 2, item.Total_Venta_Item = 36000\<rparr>"
  let ?i2 = "\<lparr>item.Producto = ''FOO'', item.Precio_Venta_Unitario = 5000,
              item.Cantidad = 1, item.Total_Venta_Item = 5000\<rparr>"
  have h1: "endswith (lower ''a.pdf'') ''.pdf''" by code_simp
  have h2: "extraer_items_desde_pdf abrir_ejemplo (path_join ''data'' ''a.pdf'') = ([?i1, ?i2], [])"
    by code_simp
  have h3: "[?i1, ?i2] \<noteq> []" by simp
  have c1: "costo_de ?i1 = Some 13500" by code_simp
  have c2: "costo_de ?i2 = None" by code_simp
  have n2: "normalizar_texto_producto ''FOO'' = ''FOO''" by code_simp
  have g: "sum_list (map ganancia_de (filter (\<lambda>it. costo_de it \<noteq> None) [?i1, ?i2])) = 9000"
    by (simp add: c1 c2 ganancia_de_def)
  have "{normalizar_texto_producto (item.Producto it) | it.
             it \<in> set [?i1, ?i2] \<and> costo_de it = None} =
        (\<lambda>it. normalizar_texto_producto (item.Producto it)) `
          set (filter (\<lambda>it. costo_de it = None) [?i1, ?i2])"
    by (simp only: set_filter) blast
  also have "\<dots> = {''FOO''}"
    by (simp add: c1 c2 n2)
  finally have u: "{normalizar_texto_producto (item.Producto it) | it.
             it \<in> set [?i1, ?i2] \<and> costo_de it = None} = {''FOO''}" .
  from document_totals [OF h1 h2 h3, of estado_inicial] obtain fila where
    f: "resumen_remisiones (procesar_archivo abrir_ejemplo ''data'' ''a.pdf'' estado_inicial) =
          resumen_remisiones estado_inicial @ [fila]"
      "resumen.Total_Ventas_COP fila = sum_list (map item.Total_Venta_Item [?i1, ?i2])"
      "resumen.Total_Ganancias_COP fila =
         sum_list (map ganancia_de (filter (\<lambda>it. costo_de it \<noteq> None) [?i1, ?i2]))"
      "productos_desconocidos (procesar_archivo abrir_ejemplo ''data'' ''a.pdf'' estado_inicial) =
         productos_desconocidos estado_inicial \<union>
         {normalizar_texto_producto (item.Producto it) | it.
            it \<in> set [?i1, ?i2] \<and> costo_de it = None}"
    by blast
  from f g u show ?thesis
    by (simp add: estado_inicial_def)
qed

lemma archivos_loop_append:
  "archivos_loop abrir c (xs @ ys) est = archivos_loop abrir c ys (archivos_loop abrir c xs est)"
  by (induction xs arbitrary: est) auto

text \<open>
  C6: a document of the data folder that gives no item adds no row to the summary, no
  row to the detail and nothing to the unknown products; only the console changes, and
  the loop goes on with the remaining files.
\<close>

theorem zero_items_document:
  assumes "endswith (lower nombre_archivo) ''.pdf''"
    and "fst (extraer_items_desde_pdf abrir (path_join carpeta_data nombre_archivo)) = []"
  shows "resumen_remisiones (procesar_archivo abrir carpeta_data nombre_archivo est) =
           resumen_remisiones est \<and>
         detalle_items (procesar_archivo abrir carpeta_data nombre_archivo est) =
           detalle_items est \<and>
         productos_desconocidos (procesar_archivo abrir carpeta_data nombre_archivo est) =
           productos_desconocidos est \<and>
         consola (procesar_archivo abrir carpeta_data nombre_archivo est) =
           consola est @ [Procesando_remision (splitext_root nombre_archivo)] @
           snd (extraer_items_desde_pdf abrir (path_join carpeta_data nombre_archivo)) @
           [No_se_encontraron_items nombre_archivo] \<and>
         archivos_loop abrir carpeta_data (antes @ nombre_archivo # resto) est =
           archivos_loop abrir carpeta_data resto
             (procesar_archivo abrir carpeta_data nombre_archivo
                (archivos_loop abrir carpeta_data antes est))"
proof -
  obtain impresos where
    e: "extraer_items_desde_pdf abrir (path_join carpeta_data nombre_archivo) = ([], impresos)"
    using assms(2)
    by (cases "extraer_items_desde_pdf abrir (path_join carpeta_data nombre_archivo)") simp
  show ?thesis
    unfolding procesar_archivo_sin_items[OF assms(1) e] e
    by (simp add: archivos_loop_append procesar_archivo_sin_items[OF assms(1) e])
qed

theorem zero_items_document_witness:
  "resumen_remisiones (procesar_archivo abrir_ejemplo ''data'' ''c.pdf'' estado_inicial) = [] \<and>
   detalle_items (procesar_archivo abrir_ejemplo ''data'' ''c.pdf'' estado_inicial) = [] \<and>
   productos_desconocidos (procesar_archivo abrir_ejemplo ''data'' ''c.pdf'' estado_inicial) = {} \<and>
   consola (procesar_archivo abrir_ejemplo ''data'' ''c.pdf'' estado_inicial) =
     [Procesando_remision ''c'', No_se_pudo_procesar ''data/c.pdf'' ''no es un PDF'',
      No_se_encontraron_items ''c.pdf''] \<and>
   archivos_loop abrir_ejemplo ''data'' [''c.pdf'', ''a.pdf''] estado_inicial =
     archivos_loop abrir_ejemplo ''data'' [''a.pdf'']
       (procesar_archivo abrir_ejemplo ''data'' ''c.pdf'' estado_inicial)"
proof -
  have h1: "endswith (lower ''c.pdf'') ''.pdf''" by code_simp
  have e: "extraer_items_desde_pdf abrir_ejemplo (path_join ''data'' ''c.pdf'') =
             ([], [No_se_pudo_procesar ''data/c.pdf'' ''no es un PDF''])"
    by code_simp
  then have h2: "fst (extraer_items_desde_pdf abrir_ejemplo (path_join ''data'' ''c.pdf'')) = []"
    by simp
  have s: "splitext_root ''c.pdf'' = ''c''" by code_simp
  show ?thesis
    using zero_items_document [OF h1 h2, of estado_inicial "[]" "[''a.pdf'']"]
    by (simp add: e s estado_inicial_def)
qed

section \<open>Properties of the run\<close>

lemma procesar_archivo_remisiones:
  "map resumen.Remision (resumen_remisiones (procesar_archivo abrir c n est)) =
   map resumen.Remision (resumen_remisiones est) @
   (if produce_items abrir c n then [splitext_root n] else [])"
proof (cases "endswith (lower n) ''.pdf''")
  case False
  then show ?thesis by (simp add: procesar_archivo_no_pdf produce_items_def)
next
  case True
  obtain items impresos where
    e: "extraer_items_desde_pdf abrir (path_join c n) = (items, impresos)"
    by (cases "extraer_items_desde_pdf abrir (path_join c n)")
  show ?thesis
  proof (cases "items = []")
    case True
    with e \<open>endswith (lower n) ''.pdf''\<close> show ?thesis
      by (simp add: procesar_archivo_sin_items produce_items_def)
  next
    case False
    let ?est2 = "est\<lparr>consola := consola est @ [Procesando_remision (splitext_root n)] @ impresos\<rparr>"
    let ?rem0 = "\<lparr>total_ventas_remision = 0, total_ganancias_remision = 0,
                  productos_en_remision = {}\<rparr>"
    obtain rem est3 where loop: "items_loop (splitext_root n) items (?rem0, ?est2) = (rem, est3)"
      by (cases "items_loop (splitext_root n) items (?rem0, ?est2)")
    from items_loop_result[OF loop] have "resumen_remisiones est3 = resumen_remisiones est"
      by simp
    with procesar_archivo_con_items[OF True e False loop] e False True show ?thesis
      by (simp add: produce_items_def)
  qed
qed

lemma archivos_loop_remisiones:
  "map resumen.Remision (resumen_remisiones (archivos_loop abrir c ns est)) =
   map resumen.Remision (resumen_remisiones est) @
   map splitext_root (filter (produce_items abrir c) ns)"
proof (induction ns arbitrary: est)
  case Nil
  show ?case by simp
next
  case (Cons n ns)
  show ?case
    by (simp add: Cons.IH procesar_archivo_remisiones)
qed

text \<open>
  C7: in a run in which no file of the data folder is a document that gives an item (the
  folder has no document, or no document gives one), no summary row exists; the run
  prints \<^const>\<open>No_se_procesaron_remisiones\<close> as its last line and ends without writing a
  workbook.
\<close>

theorem nothing_processed:
  assumes "\<forall>nombre_archivo\<in>set (listdir carpeta_data).
             \<not> produce_items abrir carpeta_data nombre_archivo"
  shows "excel (procesar_remisiones listdir abrir carpeta_data carpeta_output
                  nombre_archivo_excel) = None \<and>
         impreso (procesar_remisiones listdir abrir carpeta_data carpeta_output
                    nombre_archivo_excel) =
           consola (archivos_loop abrir carpeta_data (sort (listdir carpeta_data)) estado_inicial)
           @ [No_se_procesaron_remisiones]"
proof -
  let ?est = "archivos_loop abrir carpeta_data (sort (listdir carpeta_data)) estado_inicial"
  from assms have "filter (produce_items abrir carpeta_data) (sort (listdir carpeta_data)) = []"
    by (simp add: filter_empty_conv)
  then have "map resumen.Remision (resumen_remisiones ?est) = []"
    by (simp add: archivos_loop_remisiones estado_inicial_def)
  then have "resumen_remisiones ?est = []" by simp
  then show ?thesis
    by (simp add: procesar_remisiones_def Let_def)
qed

theorem nothing_processed_witness:
  "procesar_remisiones listdir_vacio abrir_ejemplo ''data'' ''output'' ''resumen_remisiones.xlsx'' =
     \<lparr>impreso = [Procesando_remision ''c'',
                 No_se_pudo_procesar ''data/c.pdf'' ''no es un PDF'',
                 No_se_encontraron_items ''c.pdf'',
                 No_se_procesaron_remisiones],
      carpeta_asegurada = ''output'', excel = None\<rparr>"
proof -
  have h: "\<forall>nombre_archivo\<in>set (listdir_vacio ''data'').
             \<not> produce_items abrir_ejemplo ''data'' nombre_archivo"
    by code_simp
  have c: "consola (archivos_loop abrir_ejemplo ''data'' (sort (listdir_vacio ''data''))
             estado_inicial) =
           [Procesando_remision ''c'', No_se_pudo_procesar ''data/c.pdf'' ''no es un PDF'',
            No_se_encontraron_items ''c.pdf'']"
    by code_simp
  have d: "carpeta_asegurada (procesar_remisiones listdir_vacio abrir_ejemplo ''data'' ''output''
             ''resumen_remisiones.xlsx'') = ''output''"
    by (simp add: procesar_remisiones_def Let_def)
  from nothing_processed [where listdir = listdir_vacio and carpeta_data = "''data''"
      and abrir = abrir_ejemplo and carpeta_output = "''output''"
      and nombre_archivo_excel = "''resumen_remisiones.xlsx''", OF h] c d
  show ?thesis
    by (cases "procesar_remisiones listdir_vacio abrir_ejemplo ''data'' ''output''
                 ''resumen_remisiones.xlsx''") simp
qed



lemma str_nat_not_Nil: "str_nat n \<noteq> []"
  by (simp add: str_nat.simps[of n])









end
